theory Spec2Isabelle
  imports Complex_Main "HOL-Library.Log_Nat"
begin

section \<open>The coin-flip market simulation (progettofinanza.py)\<close>

text \<open>
  The script runs three stages in sequence: it turns a column of closing prices into
  daily returns, draws a T x N matrix of coin flips and compounds the returns of every
  simulated path and of the buy-and-hold benchmark, and it summarises the last row.

  Numbers: NumPy's float64 values are modelled as \<^typ>\<open>real\<close>, so the arithmetic of the
  main model is exact. A missing price (NaN) is \<^const>\<open>None\<close>. The percentage change is
  the one place where the script can create a non-finite number from finite prices (a
  zero previous price), so its result type \<open>npfloat\<close> carries NaN and the two infinities
  explicitly. Where the rounding of float64 decides a property (a long running product
  can underflow to 0.0), the products are modelled a second time with every operation
  rounded to the nearest float64 value.

  A matrix is the list of its rows: a T x N array is a list of T lists of length N.
\<close>

subsection \<open>Stage 1: prices and daily returns (lines 17 to 30)\<close>

datatype py_error = IndexError | ValueError

datatype npfloat = Fin real | PInf | NInf | NaN

type_synonym dataframe = "(string \<times> real option list) list"

text \<open>
  Lines 22 to 26: the column called Close when the frame has one, the first column
  otherwise; \<open>data.iloc[:, 0]\<close> raises IndexError on a frame without columns.
\<close>

definition select_prices :: "dataframe \<Rightarrow> py_error + real option list" where
  "select_prices data =
     (case map_of data ''Close'' of
        Some col \<Rightarrow> Inr col
      | None \<Rightarrow> (case data of [] \<Rightarrow> Inl IndexError | (name, col) # rest \<Rightarrow> Inr col))"

text \<open>\<open>Series.shift(1)\<close>: every value moves one row down, the first row becomes NaN.\<close>

definition shift1 :: "real option list \<Rightarrow> real option list" where
  "shift1 ps = (if ps = [] then [] else None # butlast ps)"

text \<open>
  One cell of \<open>data / shifted - 1\<close>. NaN in either operand gives NaN. Division by a
  zero price follows IEEE 754: 0/0 is NaN, x/0 is an infinity with the sign of x.
\<close>

definition pct_cell :: "real option \<Rightarrow> real option \<Rightarrow> npfloat" where
  "pct_cell cur prev =
     (case cur of
        None \<Rightarrow> NaN
      | Some a \<Rightarrow>
          (case prev of
             None \<Rightarrow> NaN
           | Some b \<Rightarrow>
               if b \<noteq> 0 then Fin (a / b - 1)
               else if a = 0 then NaN
               else if 0 < a then PInf else NInf))"

text \<open>
  \<open>Series.pct_change()\<close> is called without a \<open>fill_method\<close>, so the library's default
  decides what happens to missing prices before the change is taken, and the script pins
  no library version. The default is a parameter of the model: \<open>No_Fill\<close> is
  \<open>fill_method=None\<close> (pandas from 3.0 on), \<open>Pad\<close> is the forward fill of the earlier
  versions, which copies the last valid price over every missing one after it.
\<close>

datatype fill_method = No_Fill | Pad

fun ffill_from :: "real option \<Rightarrow> real option list \<Rightarrow> real option list" where
  "ffill_from prev [] = []"
| "ffill_from prev (None # ps) = prev # ffill_from prev ps"
| "ffill_from prev (Some a # ps) = Some a # ffill_from (Some a) ps"

definition ffill :: "real option list \<Rightarrow> real option list" where
  "ffill ps = ffill_from None ps"

definition fill_prices :: "fill_method \<Rightarrow> real option list \<Rightarrow> real option list" where
  "fill_prices fm ps = (case fm of No_Fill \<Rightarrow> ps | Pad \<Rightarrow> ffill ps)"

text \<open>The change of each row of the (filled) prices against the row before it.\<close>

definition pct_change :: "fill_method \<Rightarrow> real option list \<Rightarrow> npfloat list" where
  "pct_change fm ps = map2 pct_cell (fill_prices fm ps) (shift1 (fill_prices fm ps))"

definition fillna :: "real \<Rightarrow> npfloat list \<Rightarrow> npfloat list" where
  "fillna v xs = map (\<lambda>x. case x of NaN \<Rightarrow> Fin v | _ \<Rightarrow> x) xs"

text \<open>Line 30: \<open>prices.pct_change().fillna(0).to_numpy()\<close>.\<close>

definition market_returns :: "fill_method \<Rightarrow> real option list \<Rightarrow> npfloat list" where
  "market_returns fm prices = fillna 0 (pct_change fm prices)"

subsection \<open>Stage 2: the vectorised simulation (lines 38 to 56)\<close>

text \<open>
  Line 44: \<open>np.random.choice([0, 1], size=(T, N), p=[0.5, 0.5])\<close>. The script passes no
  seed and uses NumPy's global generator; the draws of that generator are the parameter
  \<open>flips\<close> (the flip for day t and path n). NumPy rejects a negative dimension with
  ValueError and accepts a zero one.
\<close>

definition decision_matrix :: "(nat \<Rightarrow> nat \<Rightarrow> bool) \<Rightarrow> nat \<Rightarrow> int \<Rightarrow> py_error + int list list" where
  "decision_matrix flips T N =
     (if N < 0 then Inl ValueError
      else Inr (map (\<lambda>t. map (\<lambda>n. if flips t n then 1 else 0) [0..<nat N]) [0..<T]))"

text \<open>
  Line 49: the return of day t times every entry of row t of the decision matrix. The
  decision matrix always has one row per return (it is built with T = len(market_returns)).
\<close>

definition simulated_daily_returns :: "real list \<Rightarrow> int list list \<Rightarrow> real list list" where
  "simulated_daily_returns r d = map2 (\<lambda>x row. map (\<lambda>c. x * real_of_int c) row) r d"

text \<open>\<open>np.cumprod\<close> of a vector: the running product, starting with the first element.\<close>

fun cumprod_from :: "real \<Rightarrow> real list \<Rightarrow> real list" where
  "cumprod_from acc [] = []"
| "cumprod_from acc (x # xs) = (acc * x) # cumprod_from (acc * x) xs"

definition cumprod :: "real list \<Rightarrow> real list" where
  "cumprod xs = (case xs of [] \<Rightarrow> [] | x # rest \<Rightarrow> x # cumprod_from x rest)"

text \<open>\<open>np.cumprod(..., axis=0)\<close>: the running product down the rows, column by column.\<close>

fun cumprod_rows_from :: "real list \<Rightarrow> real list list \<Rightarrow> real list list" where
  "cumprod_rows_from acc [] = []"
| "cumprod_rows_from acc (row # rows) =
     map2 (*) acc row # cumprod_rows_from (map2 (*) acc row) rows"

definition cumprod_axis0 :: "real list list \<Rightarrow> real list list" where
  "cumprod_axis0 m = (case m of [] \<Rightarrow> [] | row # rows \<Rightarrow> row # cumprod_rows_from row rows)"

text \<open>Line 53.\<close>

definition equity_curves :: "real list list \<Rightarrow> real list list" where
  "equity_curves sim = cumprod_axis0 (map (map (\<lambda>x. 1 + x)) sim)"

text \<open>Line 56.\<close>

definition benchmark_curve :: "real list \<Rightarrow> real list" where
  "benchmark_curve r = cumprod (map (\<lambda>x. 1 + x) r)"

record simulation =
  decision :: "int list list"
  simulated :: "real list list"
  equity :: "real list list"
  benchmark :: "real list"

text \<open>Lines 38 to 56 together, for a return series and a simulation count.\<close>

definition simulation_engine :: "(nat \<Rightarrow> nat \<Rightarrow> bool) \<Rightarrow> real list \<Rightarrow> int \<Rightarrow> py_error + simulation" where
  "simulation_engine flips r N =
     (case decision_matrix flips (length r) N of
        Inl e \<Rightarrow> Inl e
      | Inr d \<Rightarrow>
          Inr \<lparr>decision = d,
               simulated = simulated_daily_returns r d,
               equity = equity_curves (simulated_daily_returns r d),
               benchmark = benchmark_curve r\<rparr>)"

subsection \<open>Stage 3: analysis (lines 61 to 75)\<close>

record report =
  benchmark_final :: real
  mean_final :: real
  best_final :: real
  worst_final :: real
  beat_benchmark :: nat
  prob_success :: real

text \<open>Line 74: the number of final values strictly above the benchmark's final value.\<close>

definition count_beating :: "real list \<Rightarrow> real \<Rightarrow> nat" where
  "count_beating final_values bf = length (filter (\<lambda>v. v > bf) final_values)"

text \<open>
  Lines 61 and 62 read the last row and the last benchmark value: with no rows that is an
  IndexError. \<open>np.mean\<close> of an empty row only warns, \<open>np.max\<close> of an empty row raises
  ValueError (line 69). Line 75 divides the count by the simulation count.
\<close>

definition analysis :: "real list list \<Rightarrow> real list \<Rightarrow> int \<Rightarrow> py_error + report" where
  "analysis eq bm N =
     (if eq = [] then Inl IndexError
      else if bm = [] then Inl IndexError
      else
        let final_values = last eq; bf = last bm in
        if final_values = [] then Inl ValueError
        else
          Inr \<lparr>benchmark_final = bf,
               mean_final = sum_list final_values / real (length final_values),
               best_final = fold max (tl final_values) (hd final_values),
               worst_final = fold min (tl final_values) (hd final_values),
               beat_benchmark = count_beating final_values bf,
               prob_success = real (count_beating final_values bf) / real_of_int N * 100\<rparr>)"

subsection \<open>The whole run\<close>

datatype stage = Data_Stage | Simulation_Stage | Analysis_Stage

text \<open>
  A run either raises in one of the stages or completes with a report. Returns that are
  not finite (a zero price in the data) are outside the real-valued model of stage 2.
\<close>

datatype outcome = Raised stage py_error | Non_Finite | Completed report

fun finite_returns :: "npfloat list \<Rightarrow> real list option" where
  "finite_returns [] = Some []"
| "finite_returns (Fin x # xs) = map_option ((#) x) (finite_returns xs)"
| "finite_returns (_ # xs) = None"

definition run_returns :: "(nat \<Rightarrow> nat \<Rightarrow> bool) \<Rightarrow> real list \<Rightarrow> int \<Rightarrow> outcome" where
  "run_returns flips r N =
     (case simulation_engine flips r N of
        Inl e \<Rightarrow> Raised Simulation_Stage e
      | Inr s \<Rightarrow>
          (case analysis (equity s) (benchmark s) N of
             Inl e \<Rightarrow> Raised Analysis_Stage e
           | Inr rep \<Rightarrow> Completed rep))"

definition run :: "fill_method \<Rightarrow> (nat \<Rightarrow> nat \<Rightarrow> bool) \<Rightarrow> dataframe \<Rightarrow> int \<Rightarrow> outcome" where
  "run fm flips data N =
     (case select_prices data of
        Inl e \<Rightarrow> Raised Data_Stage e
      | Inr prices \<Rightarrow>
          (case finite_returns (market_returns fm prices) of
             None \<Rightarrow> Non_Finite
           | Some r \<Rightarrow> run_returns flips r N))"

subsection \<open>The running products in float64 arithmetic\<close>

text \<open>
  A finite float64 value is m * 2^e for integers m and e with |m| < 2^53 and e \<ge> -1074
  (the values with e = -1074 and |m| < 2^52 are the subnormal ones). Every operation
  computes the exact result, which is again of the form m * 2^e, and rounds it to the
  nearest such value, ties to the even mantissa. Below the subnormal range the result is
  0. Overflow to infinity is not modelled: the exponent is unbounded above.
\<close>

datatype float64 = F64 int int

definition f64_value :: "float64 \<Rightarrow> real" where
  "f64_value x =
     (case x of F64 m e \<Rightarrow>
        if 0 \<le> e then real_of_int (m * 2 ^ nat e) else real_of_int m / 2 ^ nat (- e))"

text \<open>The integer nearest to m / 2^q, a tie going to the even one.\<close>

definition round_half_even :: "int \<Rightarrow> nat \<Rightarrow> int" where
  "round_half_even m q =
     (let d = m div 2 ^ q; rest = m mod 2 ^ q
      in if 2 ^ q < 2 * rest \<or> (2 * rest = 2 ^ q \<and> odd d) then d + 1 else d)"

text \<open>
  Rounding of the exact value m * 2^e: q is the number of low bits of m that do not
  fit, either because m has more than 53 bits or because the exponent would fall below
  -1074.
\<close>

definition round_f64 :: "int \<Rightarrow> int \<Rightarrow> float64" where
  "round_f64 m e =
     (let q = max (bitlen \<bar>m\<bar> - 53) (- 1074 - e)
      in if q \<le> 0 then F64 m e else F64 (round_half_even m (nat q)) (e + q))"

fun fmul :: "float64 \<Rightarrow> float64 \<Rightarrow> float64" where
  "fmul (F64 m1 e1) (F64 m2 e2) = round_f64 (m1 * m2) (e1 + e2)"

fun fadd :: "float64 \<Rightarrow> float64 \<Rightarrow> float64" where
  "fadd (F64 m1 e1) (F64 m2 e2) =
     (let e = min e1 e2
      in round_f64 (m1 * 2 ^ nat (e1 - e) + m2 * 2 ^ nat (e2 - e)) e)"

text \<open>The conversion of an int64 decision to float64 in the product of line 49.\<close>

definition f64_of_int :: "int \<Rightarrow> float64" where
  "f64_of_int c = round_f64 c 0"

text \<open>Lines 49, 53 and 56 with every multiplication and addition rounded.\<close>

definition simulated_daily_returns64 :: "float64 list \<Rightarrow> int list list \<Rightarrow> float64 list list" where
  "simulated_daily_returns64 r d = map2 (\<lambda>x row. map (\<lambda>c. fmul x (f64_of_int c)) row) r d"

fun cumprod64_from :: "float64 \<Rightarrow> float64 list \<Rightarrow> float64 list" where
  "cumprod64_from acc [] = []"
| "cumprod64_from acc (x # xs) = fmul acc x # cumprod64_from (fmul acc x) xs"

definition cumprod64 :: "float64 list \<Rightarrow> float64 list" where
  "cumprod64 xs = (case xs of [] \<Rightarrow> [] | x # rest \<Rightarrow> x # cumprod64_from x rest)"

fun cumprod64_rows_from :: "float64 list \<Rightarrow> float64 list list \<Rightarrow> float64 list list" where
  "cumprod64_rows_from acc [] = []"
| "cumprod64_rows_from acc (row # rows) =
     map2 fmul acc row # cumprod64_rows_from (map2 fmul acc row) rows"

definition cumprod64_axis0 :: "float64 list list \<Rightarrow> float64 list list" where
  "cumprod64_axis0 m = (case m of [] \<Rightarrow> [] | row # rows \<Rightarrow> row # cumprod64_rows_from row rows)"

definition equity_curves64 :: "float64 list list \<Rightarrow> float64 list list" where
  "equity_curves64 sim = cumprod64_axis0 (map (map (\<lambda>x. fadd (F64 1 0) x)) sim)"

definition benchmark_curve64 :: "float64 list \<Rightarrow> float64 list" where
  "benchmark_curve64 r = cumprod64 (map (\<lambda>x. fadd (F64 1 0) x) r)"

subsection \<open>Notions used to state the properties\<close>

text \<open>Column n of a matrix, the shape T x N, and a matrix with entries in {0, 1}.\<close>

definition column :: "nat \<Rightarrow> 'a list list \<Rightarrow> 'a list" where
  "column n m = map (\<lambda>row. row ! n) m"

definition shape :: "nat \<Rightarrow> nat \<Rightarrow> 'a list list \<Rightarrow> bool" where
  "shape T N m = (length m = T \<and> list_all (\<lambda>row. length row = N) m)"

definition binary :: "int list list \<Rightarrow> bool" where
  "binary d = list_all (list_all (\<lambda>c. c = 0 \<or> c = 1)) d"

text \<open>Two generators: one whose every flip is 1, one whose every flip is 0.\<close>

definition all_heads :: "nat \<Rightarrow> nat \<Rightarrow> bool" where
  "all_heads t n = True"

definition all_tails :: "nat \<Rightarrow> nat \<Rightarrow> bool" where
  "all_tails t n = False"

text \<open>A generator whose flip for day t and path n is 1 exactly when t + n is even.\<close>

definition alternating :: "nat \<Rightarrow> nat \<Rightarrow> bool" where
  "alternating t n = even (t + n)"

text \<open>
  The last price that is not missing in a list, the price a day's change is taken against
  (the price of the day before, or under forward fill the last valid price before the
  day), and the change of a price a against a price b as the script passes it on: a
  zero b gives an infinity with the sign of a, and 0/0, which is undefined, gives 0.
\<close>

fun last_valid :: "real option list \<Rightarrow> real option" where
  "last_valid [] = None"
| "last_valid (p # ps) = (case last_valid ps of None \<Rightarrow> p | Some a \<Rightarrow> Some a)"

definition reference_price :: "fill_method \<Rightarrow> real option list \<Rightarrow> nat \<Rightarrow> real option" where
  "reference_price fm prices t =
     (case fm of No_Fill \<Rightarrow> prices ! (t - 1) | Pad \<Rightarrow> last_valid (take t prices))"

definition filled_change :: "real \<Rightarrow> real \<Rightarrow> npfloat" where
  "filled_change a b =
     (if b \<noteq> 0 then Fin (a / b - 1)
      else if a = 0 then Fin 0
      else if 0 < a then PInf else NInf)"

text \<open>
  A representable float64 value, a value strictly greater than -1, and a value with a
  nonnegative mantissa.
\<close>

definition is_f64 :: "float64 \<Rightarrow> bool" where
  "is_f64 x = (case x of F64 m e \<Rightarrow> \<bar>m\<bar> < 2 ^ 53 \<and> - 1074 \<le> e)"

definition above_minus_one :: "float64 \<Rightarrow> bool" where
  "above_minus_one x = (- 1 < f64_value x)"

definition nonneg64 :: "float64 \<Rightarrow> bool" where
  "nonneg64 x = (case x of F64 m e \<Rightarrow> 0 \<le> m)"

text \<open>A frame whose columns all have no rows.\<close>

definition zero_rows :: "dataframe \<Rightarrow> bool" where
  "zero_rows data = list_all (\<lambda>c. snd c = []) data"

section \<open>Running products and columns\<close>

lemma length_cumprod_from [simp]: "length (cumprod_from a xs) = length xs"
  by (induction xs arbitrary: a) simp_all

lemma length_cumprod [simp]: "length (cumprod xs) = length xs"
  by (simp add: cumprod_def split: list.splits)

lemma length_cumprod_rows_from [simp]: "length (cumprod_rows_from acc rows) = length rows"
  by (induction rows arbitrary: acc) simp_all

lemma length_cumprod_axis0 [simp]: "length (cumprod_axis0 m) = length m"
  by (simp add: cumprod_axis0_def split: list.splits)

lemma column_cumprod_rows_from:
  "length acc = N \<Longrightarrow> list_all (\<lambda>row. length row = N) rows \<Longrightarrow> n < N \<Longrightarrow>
   column n (cumprod_rows_from acc rows) = cumprod_from (acc ! n) (column n rows)"
proof (induction rows arbitrary: acc)
  case Nil
  then show ?case by (simp add: column_def)
next
  case (Cons row rows)
  have len: "length (map2 (*) acc row) = N" using Cons.prems by simp
  have hd: "map2 (*) acc row ! n = acc ! n * row ! n" using Cons.prems by simp
  have "column n (cumprod_rows_from (map2 (*) acc row) rows)
        = cumprod_from (map2 (*) acc row ! n) (column n rows)"
    using Cons.IH [OF len] Cons.prems by simp
  then show ?case using hd by (simp add: column_def)
qed

lemma column_cumprod_axis0:
  "list_all (\<lambda>row. length row = N) m \<Longrightarrow> n < N \<Longrightarrow>
   column n (cumprod_axis0 m) = cumprod (column n m)"
proof (cases m)
  case Nil
  then show ?thesis by (simp add: cumprod_axis0_def cumprod_def column_def)
next
  case (Cons row rows)
  assume a: "list_all (\<lambda>row. length row = N) m" "n < N"
  then have "column n (cumprod_rows_from row rows) = cumprod_from (row ! n) (column n rows)"
    using Cons column_cumprod_rows_from [of row N rows n] by simp
  then show ?thesis using Cons by (simp add: cumprod_axis0_def cumprod_def column_def)
qed

lemma rows_cumprod_rows_from:
  "length acc = N \<Longrightarrow> list_all (\<lambda>row. length row = N) rows \<Longrightarrow>
   list_all (\<lambda>row. length row = N) (cumprod_rows_from acc rows)"
  by (induction rows arbitrary: acc) simp_all

lemma shape_cumprod_axis0: "shape T N m \<Longrightarrow> shape T N (cumprod_axis0 m)"
  by (cases m) (simp_all add: shape_def cumprod_axis0_def rows_cumprod_rows_from)

lemma shape_simulated:
  "shape (length r) N d \<Longrightarrow> shape (length r) N (simulated_daily_returns r d)"
  by (auto simp: shape_def simulated_daily_returns_def list_all_iff dest: set_zip_rightD)

lemma simulated_nth:
  "length d = length r \<Longrightarrow> t < length r \<Longrightarrow> n < length (d ! t) \<Longrightarrow>
   simulated_daily_returns r d ! t ! n = r ! t * real_of_int (d ! t ! n)"
  by (simp add: simulated_daily_returns_def)

lemma column_simulated:
  "shape (length r) N d \<Longrightarrow> n < N \<Longrightarrow>
   column n (simulated_daily_returns r d) = map2 (\<lambda>x c. x * real_of_int c) r (column n d)"
  apply (rule nth_equalityI)
   apply (simp add: column_def simulated_daily_returns_def shape_def)
  apply (simp add: column_def simulated_daily_returns_def shape_def list_all_length)
  done

lemma shape_equity: "shape T N sim \<Longrightarrow> shape T N (equity_curves sim)"
  unfolding equity_curves_def
  by (rule shape_cumprod_axis0) (simp add: shape_def list_all_iff)

lemma column_equity:
  "shape T N sim \<Longrightarrow> n < N \<Longrightarrow>
   column n (equity_curves sim) = cumprod (map (\<lambda>x. 1 + x) (column n sim))"
proof -
  assume a: "shape T N sim" "n < N"
  have "list_all (\<lambda>row. length row = N) (map (map (\<lambda>x. 1 + x)) sim)"
    using a by (simp add: shape_def list_all_iff)
  then have "column n (equity_curves sim) = cumprod (column n (map (map (\<lambda>x. 1 + x)) sim))"
    unfolding equity_curves_def using a(2) by (rule column_cumprod_axis0)
  moreover have "column n (map (map (\<lambda>x. 1 + x)) sim) = map (\<lambda>x. 1 + x) (column n sim)"
    using a by (simp add: column_def shape_def list_all_iff)
  ultimately show ?thesis by simp
qed

lemma shape_decision:
  "decision_matrix flips T N = Inr d \<Longrightarrow> shape T (nat N) d \<and> binary d"
  by (auto simp: decision_matrix_def shape_def binary_def list_all_iff split: if_splits)


lemma cumprod_from_nth:
  "t < length xs \<Longrightarrow> cumprod_from a xs ! t = a * prod_list (take (Suc t) xs)"
proof (induction xs arbitrary: a t)
  case Nil
  then show ?case by simp
next
  case (Cons x xs)
  show ?case
  proof (cases t)
    case 0
    then show ?thesis by simp
  next
    case (Suc k)
    then have "k < length xs" using Cons.prems by simp
    then show ?thesis using Suc Cons.IH [of k "a * x"] by (simp add: mult.assoc)
  qed
qed

lemma cumprod_nth:
  "t < length xs \<Longrightarrow> cumprod xs ! t = prod_list (take (Suc t) xs)"
proof (cases xs)
  case Nil
  assume "t < length xs"
  then show ?thesis using Nil by simp
next
  case (Cons x rest)
  assume t: "t < length xs"
  show ?thesis
  proof (cases t)
    case 0
    then show ?thesis using Cons by (simp add: cumprod_def)
  next
    case (Suc k)
    then have "k < length rest" using t Cons by simp
    then show ?thesis using Suc Cons cumprod_from_nth [of k rest x] by (simp add: cumprod_def)
  qed
qed

lemma cumprod_from_pos:
  "0 < a \<Longrightarrow> list_all (\<lambda>x. 0 < x) xs \<Longrightarrow> list_all (\<lambda>y. 0 < y) (cumprod_from a xs)"
  by (induction xs arbitrary: a) simp_all

lemma cumprod_pos:
  "list_all (\<lambda>x. 0 < x) xs \<Longrightarrow> list_all (\<lambda>y. 0 < y) (cumprod xs)"
  by (cases xs) (simp_all add: cumprod_def cumprod_from_pos)

lemma cumprod_from_mono:
  "0 \<le> a \<Longrightarrow> a \<le> b \<Longrightarrow> list_all2 (\<lambda>x y. 0 \<le> x \<and> x \<le> y) xs ys \<Longrightarrow>
   list_all2 (\<le>) (cumprod_from a xs) (cumprod_from b ys)"
proof (induction xs arbitrary: a b ys)
  case Nil
  then show ?case by simp
next
  case (Cons x xs)
  then obtain y ys' where ys: "ys = y # ys'" and xy: "0 \<le> x" "x \<le> y"
    and rest: "list_all2 (\<lambda>x y. 0 \<le> x \<and> x \<le> y) xs ys'"
    by (auto simp: list_all2_Cons1)
  have le: "a * x \<le> b * y" using Cons.prems(1,2) xy by (intro mult_mono) simp_all
  have nn: "0 \<le> a * x" using Cons.prems(1) xy(1) by simp
  show ?case using ys le Cons.IH [OF nn le rest] by simp
qed

lemma cumprod_mono:
  "list_all2 (\<lambda>x y. 0 \<le> x \<and> x \<le> y) xs ys \<Longrightarrow> list_all2 (\<le>) (cumprod xs) (cumprod ys)"
proof (cases xs)
  case Nil
  assume "list_all2 (\<lambda>x y. 0 \<le> x \<and> x \<le> y) xs ys"
  then show ?thesis using Nil by (simp add: cumprod_def)
next
  case (Cons x rest)
  assume "list_all2 (\<lambda>x y. 0 \<le> x \<and> x \<le> y) xs ys"
  then obtain y ys' where ys: "ys = y # ys'" and xy: "0 \<le> x" "x \<le> y"
    and rest: "list_all2 (\<lambda>x y. 0 \<le> x \<and> x \<le> y) rest ys'"
    using Cons by (auto simp: list_all2_Cons1)
  show ?thesis using Cons ys xy cumprod_from_mono [OF xy rest] by (simp add: cumprod_def)
qed

lemma column_nth: "t < length m \<Longrightarrow> column n m ! t = m ! t ! n"
  by (simp add: column_def)

lemma entry_equity:
  assumes "shape (length r) N d" "n < N" "t < length r"
  shows "equity_curves (simulated_daily_returns r d) ! t ! n
         = cumprod (map (\<lambda>x. 1 + x) (map2 (\<lambda>x c. x * real_of_int c) r (column n d))) ! t"
proof -
  let ?sim = "simulated_daily_returns r d"
  have sh: "shape (length r) N ?sim" using assms(1) by (rule shape_simulated)
  have len: "t < length (equity_curves ?sim)"
    using shape_equity [OF sh] assms(3) by (simp add: shape_def)
  have "equity_curves ?sim ! t ! n = column n (equity_curves ?sim) ! t"
    using len by (simp add: column_nth)
  also have "\<dots> = cumprod (map (\<lambda>x. 1 + x) (column n ?sim)) ! t"
    using column_equity [OF sh assms(2)] by simp
  finally show ?thesis using column_simulated [OF assms(1,2)] by simp
qed

lemma all_ones_column_entry:
  assumes "shape (length r) N d" and "n < N" and "list_all (\<lambda>c. c = 1) (column n d)"
    and "t < length r"
  shows "equity_curves (simulated_daily_returns r d) ! t ! n = benchmark_curve r ! t"
proof -
  have len: "length (column n d) = length r" using assms(1) by (simp add: column_def shape_def)
  have "map2 (\<lambda>x c. x * real_of_int c) r (column n d) = r"
    using len assms(3) by (intro nth_equalityI) (simp_all add: list_all_length)
  then show ?thesis using entry_equity [OF assms(1,2,4)] by (simp add: benchmark_curve_def)
qed

lemma engine_fields:
  assumes "0 \<le> N"
  shows "\<exists>d. decision_matrix flips (length r) N = Inr d
           \<and> shape (length r) (nat N) d \<and> binary d
           \<and> simulation_engine flips r N =
               Inr \<lparr>decision = d, simulated = simulated_daily_returns r d,
                    equity = equity_curves (simulated_daily_returns r d),
                    benchmark = benchmark_curve r\<rparr>"
proof -
  obtain d where d: "decision_matrix flips (length r) N = Inr d"
    using assms by (simp add: decision_matrix_def)
  then show ?thesis using shape_decision [OF d] by (simp add: simulation_engine_def)
qed

lemma engine_simulated:
  assumes "simulation_engine flips r N = Inr s"
  shows "simulated s = simulated_daily_returns r (decision s)
       \<and> equity s = equity_curves (simulated s)
       \<and> benchmark s = benchmark_curve r
       \<and> shape (length r) (nat N) (decision s) \<and> binary (decision s)"
proof -
  have N: "0 \<le> N" using assms by (auto simp: simulation_engine_def decision_matrix_def split: if_splits)
  show ?thesis using engine_fields [OF N, of flips r] assms by auto
qed

lemma shape_last:
  "shape T N m \<Longrightarrow> 0 < T \<Longrightarrow> length (last m) = N \<and> last m = m ! (T - 1)"
  by (cases m rule: rev_cases) (auto simp: shape_def nth_append)

lemma length_benchmark [simp]: "length (benchmark_curve r) = length r"
  by (simp add: benchmark_curve_def)


section \<open>Daily returns\<close>

lemma shift1_nth: "1 \<le> t \<Longrightarrow> t < length ps \<Longrightarrow> shift1 ps ! t = ps ! (t - 1)"
  by (cases t) (auto simp: shift1_def nth_butlast)

lemma length_shift1 [simp]: "length (shift1 ps) = length ps"
  by (simp add: shift1_def)

lemma length_ffill_from [simp]: "length (ffill_from prev ps) = length ps"
  by (induction prev ps rule: ffill_from.induct) simp_all

lemma length_fill_prices [simp]: "length (fill_prices fm ps) = length ps"
  by (cases fm) (simp_all add: fill_prices_def ffill_def)

lemma length_market_returns [simp]: "length (market_returns fm ps) = length ps"
  by (simp add: market_returns_def fillna_def pct_change_def)

lemma market_returns_nth:
  "t < length ps \<Longrightarrow>
   market_returns fm ps ! t =
     (case pct_cell (fill_prices fm ps ! t) (shift1 (fill_prices fm ps) ! t) of
        NaN \<Rightarrow> Fin 0 | v \<Rightarrow> v)"
  by (simp add: market_returns_def fillna_def pct_change_def split: npfloat.splits)

lemma market_returns_first: "ps \<noteq> [] \<Longrightarrow> market_returns fm ps ! 0 = Fin 0"
proof -
  assume ne: "ps \<noteq> []"
  then have "fill_prices fm ps \<noteq> []" using length_fill_prices [of fm ps] by (cases "fill_prices fm ps") simp_all
  then have "shift1 (fill_prices fm ps) ! 0 = None" by (simp add: shift1_def)
  then show ?thesis using ne
    by (simp add: market_returns_nth pct_cell_def split: option.splits)
qed

lemma last_valid_snoc:
  "last_valid (ps @ [p]) = (case p of None \<Rightarrow> last_valid ps | Some a \<Rightarrow> Some a)"
  by (induction ps) (simp_all split: option.splits)

lemma ffill_from_nth:
  "i < length ps \<Longrightarrow>
   ffill_from prev ps ! i = (case last_valid (take (Suc i) ps) of None \<Rightarrow> prev | Some a \<Rightarrow> Some a)"
proof (induction prev ps arbitrary: i rule: ffill_from.induct)
  case (1 prev)
  then show ?case by simp
next
  case (2 prev ps)
  then show ?case by (cases i) (simp_all split: option.splits)
next
  case (3 prev a ps)
  then show ?case by (cases i) (simp_all split: option.splits)
qed

lemma ffill_nth: "i < length ps \<Longrightarrow> ffill ps ! i = last_valid (take (Suc i) ps)"
  by (simp add: ffill_def ffill_from_nth split: option.splits)

lemma ffill_nth_step:
  "t < length ps \<Longrightarrow>
   ffill ps ! t = (case ps ! t of None \<Rightarrow> last_valid (take t ps) | Some a \<Rightarrow> Some a)"
  by (simp add: ffill_nth take_Suc_conv_app_nth last_valid_snoc)

lemma filled_change_cell:
  "(case pct_cell (Some a) (Some b) of NaN \<Rightarrow> Fin 0 | v \<Rightarrow> v) = filled_change a b"
  by (simp add: pct_cell_def filled_change_def)

lemma unchanged_cell: "(case pct_cell p p of NaN \<Rightarrow> Fin 0 | v \<Rightarrow> v) = Fin 0"
  by (cases p) (simp_all add: pct_cell_def)

lemma market_returns_entry:
  assumes "1 \<le> t" and "t < length prices"
  shows "market_returns fm prices ! t =
     (case prices ! t of
        None \<Rightarrow> Fin 0
      | Some a \<Rightarrow>
          (case reference_price fm prices t of
             None \<Rightarrow> Fin 0
           | Some b \<Rightarrow> filled_change a b))"
proof (cases fm)
  case No_Fill
  have "shift1 prices ! t = prices ! (t - 1)" using assms by (rule shift1_nth)
  then show ?thesis using No_Fill assms(2)
    by (simp add: market_returns_nth fill_prices_def reference_price_def pct_cell_def
        filled_change_def split: option.splits)
next
  case Pad
  let ?lv = "last_valid (take t prices)"
  have t1: "t - 1 < length prices" and st: "Suc (t - 1) = t" using assms by simp_all
  have cur: "ffill prices ! t = (case prices ! t of None \<Rightarrow> ?lv | Some a \<Rightarrow> Some a)"
    using assms(2) by (rule ffill_nth_step)
  have "shift1 (ffill prices) ! t = ffill prices ! (t - 1)"
    using assms by (simp add: shift1_nth ffill_def)
  then have prev: "shift1 (ffill prices) ! t = ?lv"
    using ffill_nth [OF t1] st by simp
  have "market_returns fm prices ! t =
          (case pct_cell (ffill prices ! t) ?lv of NaN \<Rightarrow> Fin 0 | v \<Rightarrow> v)"
    using Pad assms(2) prev by (simp add: market_returns_nth fill_prices_def)
  then show ?thesis
  proof (cases "prices ! t")
    case None
    then show ?thesis
      using \<open>market_returns fm prices ! t =
          (case pct_cell (ffill prices ! t) ?lv of NaN \<Rightarrow> Fin 0 | v \<Rightarrow> v)\<close> cur unchanged_cell [of ?lv]
      by simp
  next
    case (Some a)
    show ?thesis
    proof (cases ?lv)
      case None
      then show ?thesis
        using \<open>market_returns fm prices ! t =
          (case pct_cell (ffill prices ! t) ?lv of NaN \<Rightarrow> Fin 0 | v \<Rightarrow> v)\<close> cur Some Pad
        by (simp add: reference_price_def pct_cell_def)
    next
      case (Some b)
      then show ?thesis
        using \<open>market_returns fm prices ! t =
          (case pct_cell (ffill prices ! t) ?lv of NaN \<Rightarrow> Fin 0 | v \<Rightarrow> v)\<close> cur \<open>prices ! t = Some a\<close> Pad
          filled_change_cell [of a b]
        by (simp add: reference_price_def)
    qed
  qed
qed

section \<open>Analysis and the outcome of a run\<close>

lemma analysis_completes:
  assumes "eq \<noteq> []" and "bm \<noteq> []" and "last eq \<noteq> []"
  shows "analysis eq bm N =
     Inr \<lparr>benchmark_final = last bm,
          mean_final = sum_list (last eq) / real (length (last eq)),
          best_final = fold max (tl (last eq)) (hd (last eq)),
          worst_final = fold min (tl (last eq)) (hd (last eq)),
          beat_benchmark = count_beating (last eq) (last bm),
          prob_success = real (count_beating (last eq) (last bm)) / real_of_int N * 100\<rparr>"
  using assms by (simp add: analysis_def Let_def)

lemma count_beating_card:
  "count_beating fv bf = card {n. n < length fv \<and> bf < fv ! n}"
  by (simp add: count_beating_def length_filter_conv_card)

lemma select_prices_zero_rows:
  assumes "zero_rows data" and "data \<noteq> []"
  shows "select_prices data = Inr []"
proof (cases "map_of data ''Close''")
  case None
  then show ?thesis using assms
    by (cases data) (auto simp: select_prices_def zero_rows_def)
next
  case (Some col)
  then have "(''Close'', col) \<in> set data" by (rule map_of_SomeD)
  then have "col = []" using assms(1) by (auto simp: zero_rows_def list_all_iff)
  then show ?thesis using Some by (simp add: select_prices_def)
qed

lemma engine_no_days:
  "0 \<le> N \<Longrightarrow> simulation_engine flips [] N =
     Inr \<lparr>decision = [], simulated = [], equity = [], benchmark = []\<rparr>"
  by (simp add: simulation_engine_def decision_matrix_def simulated_daily_returns_def
      equity_curves_def cumprod_axis0_def benchmark_curve_def cumprod_def)

lemma engine_negative: "N < 0 \<Longrightarrow> simulation_engine flips r N = Inl ValueError"
  by (simp add: simulation_engine_def decision_matrix_def)

lemma run_returns_no_days:
  "0 \<le> N \<Longrightarrow> run_returns flips [] N = Raised Analysis_Stage IndexError"
  by (simp add: run_returns_def engine_no_days analysis_def)

lemma run_returns_negative:
  "N < 0 \<Longrightarrow> run_returns flips r N = Raised Simulation_Stage ValueError"
  by (simp add: run_returns_def engine_negative)



section \<open>Sign of the running products\<close>

text \<open>In exact arithmetic the products are strictly positive.\<close>

lemma exact_curves_positive:
  assumes "list_all (\<lambda>x. - 1 < x) r" and "shape (length r) N d" and "binary d"
    and "t < length r" and "n < N"
  shows "0 < equity_curves (simulated_daily_returns r d) ! t ! n \<and> 0 < benchmark_curve r ! t"
proof -
  let ?col = "map (\<lambda>x. 1 + x) (map2 (\<lambda>x c. x * real_of_int c) r (column n d))"
  have lend: "length d = length r" and rows: "\<forall>i<length r. length (d ! i) = N"
    using assms(2) by (simp_all add: shape_def list_all_length)
  have bin: "\<forall>i<length r. d ! i ! n = 0 \<or> d ! i ! n = 1"
    using assms(3,5) lend rows by (simp add: binary_def list_all_length)
  have cell: "0 < 1 + r ! i * real_of_int (d ! i ! n)" if i: "i < length r" for i
  proof -
    have "- 1 < r ! i" using assms(1) i by (simp add: list_all_length)
    moreover have "d ! i ! n = 0 \<or> d ! i ! n = 1" using bin i by blast
    ultimately show ?thesis by auto
  qed
  have "list_all (\<lambda>x. 0 < x) ?col"
    using cell lend by (simp add: list_all_length column_def)
  then have "list_all (\<lambda>y. 0 < y) (cumprod ?col)" by (rule cumprod_pos)
  then have eq: "0 < cumprod ?col ! t" using assms(4) lend by (simp add: list_all_length column_def)
  have "list_all (\<lambda>x. 0 < x) (map (\<lambda>x. 1 + x) r)"
    using assms(1) by (induction r) simp_all
  then have "list_all (\<lambda>y. 0 < y) (benchmark_curve r)"
    unfolding benchmark_curve_def by (rule cumprod_pos)
  then have "0 < benchmark_curve r ! t"
    using assms(4) by (simp add: list_all_length benchmark_curve_def)
  then show ?thesis using eq entry_equity [OF assms(2,5,4)] by simp
qed

text \<open>Rounding keeps a nonnegative value nonnegative, so the rounded products are nonnegative.\<close>

lemma round_half_even_nonneg: "0 \<le> m \<Longrightarrow> 0 \<le> round_half_even m q"
  by (simp add: round_half_even_def Let_def pos_imp_zdiv_nonneg_iff)

lemma round_f64_nonneg: "0 \<le> m \<Longrightarrow> nonneg64 (round_f64 m e)"
  by (simp add: round_f64_def Let_def nonneg64_def round_half_even_nonneg)

lemma nonneg64_value: "nonneg64 x \<Longrightarrow> 0 \<le> f64_value x"
  by (cases x) (simp add: nonneg64_def f64_value_def)

lemma fmul_nonneg: "nonneg64 x \<Longrightarrow> nonneg64 y \<Longrightarrow> nonneg64 (fmul x y)"
  by (cases x; cases y) (simp add: nonneg64_def round_f64_nonneg [unfolded nonneg64_def])

lemma round_f64_exact: "\<bar>m\<bar> < 2 ^ 53 \<Longrightarrow> - 1074 \<le> e \<Longrightarrow> round_f64 m e = F64 m e"
proof -
  assume a: "\<bar>m\<bar> < 2 ^ 53" "- 1074 \<le> e"
  have "bitlen \<bar>m\<bar> \<le> 53" using a(1) by (simp add: bitlen_le_iff_power)
  then show ?thesis using a(2) by (simp add: round_f64_def)
qed

lemma f64_of_int_binary: "f64_of_int 0 = F64 0 0" "f64_of_int 1 = F64 1 0"
  by (simp_all add: f64_of_int_def round_f64_exact)

lemma fadd_one_nonneg:
  assumes "- 1 \<le> f64_value y"
  shows "nonneg64 (fadd (F64 1 0) y)"
proof (cases y)
  case (F64 m e)
  show ?thesis
  proof (cases "0 \<le> e")
    case True
    then have "- 1 \<le> real_of_int (m * 2 ^ nat e)" using assms F64 by (simp add: f64_value_def)
    then have "- 1 \<le> m * 2 ^ nat e" by linarith
    then have "0 \<le> 1 + m * 2 ^ nat e" by simp
    then show ?thesis using F64 True by (simp add: min_def round_f64_nonneg)
  next
    case False
    then have "- 1 \<le> real_of_int m / 2 ^ nat (- e)" using assms F64 by (simp add: f64_value_def)
    then have "- (2 ^ nat (- e)) \<le> real_of_int m" by (simp add: pos_le_divide_eq)
    then have "real_of_int (- (2 ^ nat (- e))) \<le> real_of_int m" by simp
    then have "- (2 ^ nat (- e)) \<le> m" by (simp only: of_int_le_iff)
    then have "0 \<le> 2 ^ nat (- e) + m" by simp
    then show ?thesis using F64 False by (simp add: min_def round_f64_nonneg)
  qed
qed

lemma factor_nonneg:
  assumes "is_f64 x" and "- 1 < f64_value x" and "c = 0 \<or> c = 1"
  shows "nonneg64 (fadd (F64 1 0) (fmul x (f64_of_int c)))"
proof (cases x)
  case (F64 m e)
  then have rep: "\<bar>m\<bar> < 2 ^ 53" "- 1074 \<le> e" using assms(1) by (simp_all add: is_f64_def)
  from assms(3) show ?thesis
  proof
    assume "c = 0"
    then have "fmul x (f64_of_int c) = F64 0 e"
      using F64 rep(2) by (simp add: f64_of_int_binary round_f64_exact)
    moreover have "- 1 \<le> f64_value (F64 0 e)" by (simp add: f64_value_def)
    ultimately show ?thesis using fadd_one_nonneg [of "F64 0 e"] by simp
  next
    assume "c = 1"
    then have "fmul x (f64_of_int c) = x"
      using F64 rep by (simp add: f64_of_int_binary round_f64_exact)
    then show ?thesis using assms(2) fadd_one_nonneg [of x] by simp
  qed
qed

lemma cumprod64_from_nonneg:
  "nonneg64 acc \<Longrightarrow> list_all nonneg64 xs \<Longrightarrow> list_all nonneg64 (cumprod64_from acc xs)"
  by (induction xs arbitrary: acc) (simp_all add: fmul_nonneg)

lemma cumprod64_nonneg: "list_all nonneg64 xs \<Longrightarrow> list_all nonneg64 (cumprod64 xs)"
  by (cases xs) (simp_all add: cumprod64_def cumprod64_from_nonneg)

lemma map2_fmul_nonneg:
  "list_all nonneg64 xs \<Longrightarrow> list_all nonneg64 ys \<Longrightarrow> list_all nonneg64 (map2 fmul xs ys)"
  by (auto simp: list_all_iff intro!: fmul_nonneg dest: set_zip_leftD set_zip_rightD)

lemma cumprod64_rows_from_nonneg:
  "list_all nonneg64 acc \<Longrightarrow> list_all (list_all nonneg64) rows \<Longrightarrow>
   list_all (list_all nonneg64) (cumprod64_rows_from acc rows)"
  by (induction rows arbitrary: acc) (simp_all add: map2_fmul_nonneg)

lemma cumprod64_axis0_nonneg:
  "list_all (list_all nonneg64) m \<Longrightarrow> list_all (list_all nonneg64) (cumprod64_axis0 m)"
  by (cases m) (simp_all add: cumprod64_axis0_def cumprod64_rows_from_nonneg)

lemma length_cumprod64_from [simp]: "length (cumprod64_from a xs) = length xs"
  by (induction xs arbitrary: a) simp_all

lemma length_cumprod64 [simp]: "length (cumprod64 xs) = length xs"
  by (simp add: cumprod64_def split: list.splits)

lemma length_cumprod64_rows_from [simp]: "length (cumprod64_rows_from acc rows) = length rows"
  by (induction rows arbitrary: acc) simp_all

lemma rows_cumprod64_rows_from:
  "length acc = N \<Longrightarrow> list_all (\<lambda>row. length row = N) rows \<Longrightarrow>
   list_all (\<lambda>row. length row = N) (cumprod64_rows_from acc rows)"
  by (induction rows arbitrary: acc) simp_all

lemma shape_cumprod64_axis0: "shape T N m \<Longrightarrow> shape T N (cumprod64_axis0 m)"
  by (cases m) (simp_all add: shape_def cumprod64_axis0_def rows_cumprod64_rows_from)

lemma shape_simulated64:
  "shape (length r) N d \<Longrightarrow> shape (length r) N (simulated_daily_returns64 r d)"
  by (auto simp: shape_def simulated_daily_returns64_def list_all_iff dest: set_zip_rightD)

lemma shape_equity64: "shape T N sim \<Longrightarrow> shape T N (equity_curves64 sim)"
  unfolding equity_curves64_def
  by (rule shape_cumprod64_axis0) (simp add: shape_def list_all_iff)

lemma equity64_nonneg:
  assumes "list_all is_f64 r" and "list_all (\<lambda>x. - 1 < f64_value x) r" and "binary d"
  shows "list_all (list_all nonneg64) (equity_curves64 (simulated_daily_returns64 r d))"
proof -
  have "list_all (list_all nonneg64)
          (map (map (\<lambda>x. fadd (F64 1 0) x)) (simulated_daily_returns64 r d))"
    using assms
    by (auto simp: list_all_iff simulated_daily_returns64_def binary_def
        intro!: factor_nonneg dest: set_zip_leftD set_zip_rightD)
  then show ?thesis unfolding equity_curves64_def by (rule cumprod64_axis0_nonneg)
qed

lemma benchmark64_nonneg:
  assumes "list_all (\<lambda>x. - 1 < f64_value x) r"
  shows "list_all nonneg64 (benchmark_curve64 r)"
proof -
  have "list_all nonneg64 (map (\<lambda>x. fadd (F64 1 0) x) r)"
    using assms by (auto simp: list_all_iff intro!: fadd_one_nonneg)
  then show ?thesis unfolding benchmark_curve64_def by (rule cumprod64_nonneg)
qed

lemma nth_nonneg64:
  "list_all (list_all nonneg64) m \<Longrightarrow> shape T N m \<Longrightarrow> t < T \<Longrightarrow> n < N \<Longrightarrow>
   0 \<le> f64_value (m ! t ! n)"
  by (simp add: shape_def list_all_length nonneg64_value)


section \<open>The simulated return matrix\<close>

text \<open>
  Claim C1. For a return series r of length T and a decision matrix d of shape T x N with
  entries in {0, 1}, entry (t, n) of the simulated return matrix is r[t] * d[t, n]: it is
  r[t] where the decision is 1 and 0 where the decision is 0.
\<close>

theorem simulated_returns_entries:
  assumes "shape (length r) N d" and "binary d" and "t < length r" and "n < N"
  shows "simulated_daily_returns r d ! t ! n = r ! t * real_of_int (d ! t ! n)
       \<and> simulated_daily_returns r d ! t ! n = (if d ! t ! n = 1 then r ! t else 0)
       \<and> (d ! t ! n = 0 \<or> d ! t ! n = 1)"
proof -
  have row: "length (d ! t) = N" and lend: "length d = length r"
    using assms(1,3) by (simp_all add: shape_def list_all_length)
  have bin: "d ! t ! n = 0 \<or> d ! t ! n = 1"
    using assms(2,3,4) row lend by (simp add: binary_def list_all_length)
  have "simulated_daily_returns r d ! t ! n = r ! t * real_of_int (d ! t ! n)"
    using lend assms(3,4) row by (simp add: simulated_nth)
  then show ?thesis using bin by auto
qed

theorem simulated_returns_entries_witness:
  "simulation_engine alternating [0, 1/10, - 1/10, 1/20] 2 =
     Inr \<lparr>decision = [[1, 0], [0, 1], [1, 0], [0, 1]],
          simulated = [[0, 0], [0, 1/10], [- 1/10, 0], [0, 1/20]],
          equity = [[1, 1], [1, 11/10], [9/10, 11/10], [9/10, 231/200]],
          benchmark = [1, 11/10, 99/100, 2079/2000]\<rparr>
   \<and> shape (length [0, 1/10, - 1/10, 1/20 :: real]) 2 [[1, 0], [0, 1], [1, 0], [0, 1 :: int]]
   \<and> binary [[1, 0], [0, 1], [1, 0], [0, 1]]
   \<and> simulated_daily_returns [0, 1/10, - 1/10, 1/20] [[1, 0], [0, 1], [1, 0], [0, 1]] ! 2 ! 0 = - 1/10
   \<and> simulated_daily_returns [0, 1/10, - 1/10, 1/20] [[1, 0], [0, 1], [1, 0], [0, 1]] ! 2 ! 1 = 0"
proof -
  have e: "simulation_engine alternating [0, 1/10, - 1/10, 1/20] 2 =
     Inr \<lparr>decision = [[1, 0], [0, 1], [1, 0], [0, 1]],
          simulated = [[0, 0], [0, 1/10], [- 1/10, 0], [0, 1/20]],
          equity = [[1, 1], [1, 11/10], [9/10, 11/10], [9/10, 231/200]],
          benchmark = [1, 11/10, 99/100, 2079/2000]\<rparr>"
    by (simp add: simulation_engine_def decision_matrix_def alternating_def upt_rec
        simulated_daily_returns_def equity_curves_def cumprod_axis0_def benchmark_curve_def
        cumprod_def)
  have s: "shape (length [0, 1/10, - 1/10, 1/20 :: real]) 2 [[1, 0], [0, 1], [1, 0], [0, 1 :: int]]"
    and b: "binary [[1, 0], [0, 1], [1, 0], [0, 1]]"
    using engine_simulated [OF e] by simp_all
  show ?thesis
    using e s b simulated_returns_entries [OF s b, of 2 0] simulated_returns_entries [OF s b, of 2 1]
    by simp
qed

section \<open>Benchmark and equity curves\<close>

text \<open>
  Claim C2. When column n of the decision matrix is all ones, column n of the equity curve
  matrix equals the benchmark curve at every index t.
\<close>

theorem benchmark_equals_all_ones_column:
  assumes "shape (length r) N d" and "n < N" and "list_all (\<lambda>c. c = 1) (column n d)"
    and "t < length r"
  shows "equity_curves (simulated_daily_returns r d) ! t ! n = benchmark_curve r ! t"
  using assms by (rule all_ones_column_entry)

theorem benchmark_equals_all_ones_column_witness:
  "shape (length [0, 1/10, - 1/10, 1/20 :: real]) 2 [[1,0],[1,1],[1,1],[1,0 :: int]]
   \<and> list_all (\<lambda>c. c = 1) (column 0 [[1,0],[1,1],[1,1],[1,0::int]])
   \<and> equity_curves (simulated_daily_returns [0, 1/10, - 1/10, 1/20] [[1,0],[1,1],[1,1],[1,0]]) ! 3 ! 0
       = 2079 / 2000
   \<and> benchmark_curve [0, 1/10, - 1/10, 1/20] ! 3 = 2079 / 2000"
proof -
  have s: "shape (length [0, 1/10, - 1/10, 1/20 :: real]) 2 [[1,0],[1,1],[1,1],[1,0 :: int]]"
    by (simp add: shape_def)
  have c: "list_all (\<lambda>c. c = 1) (column 0 [[1,0],[1,1],[1,1],[1,0::int]])"
    by (simp add: column_def)
  have b: "benchmark_curve [0, 1/10, - 1/10, 1/20] ! 3 = 2079 / 2000"
    by (simp add: benchmark_curve_def cumprod_def)
  show ?thesis
    using s c b benchmark_equals_all_ones_column [OF s _ c, of 3] by simp
qed

text \<open>
  Claim C7. When every return is zero, every entry of the equity curve matrix and of the
  benchmark curve is 1, whatever the decision matrix.
\<close>

theorem break_even_all_zero_returns:
  assumes "list_all (\<lambda>x. x = 0) r" and "shape (length r) N d" and "t < length r" and "n < N"
  shows "equity_curves (simulated_daily_returns r d) ! t ! n = 1 \<and> benchmark_curve r ! t = 1"
proof -
  have r0: "r = replicate (length r) 0"
    using assms(1) by (intro nth_equalityI) (simp_all add: list_all_length)
  have len: "length (column n d) = length r" using assms(2) by (simp add: column_def shape_def)
  have ones: "map (\<lambda>x. 1 + x) (map2 (\<lambda>x c. x * real_of_int c) r (column n d))
              = replicate (length r) 1"
    using len assms(1) by (intro nth_equalityI) (simp_all add: list_all_length)
  have "prod_list (take (Suc t) (replicate (length r) (1::real))) = 1" by simp
  then have e: "cumprod (replicate (length r) 1) ! t = 1"
    using assms(3) cumprod_nth [of t "replicate (length r) 1"] by simp
  have "map (\<lambda>x. 1 + x) r = replicate (length r) (1::real)"
    using assms(1) by (intro nth_equalityI) (simp_all add: list_all_length)
  then have b: "benchmark_curve r ! t = 1" using e by (simp add: benchmark_curve_def)
  show ?thesis using entry_equity [OF assms(2,4,3)] ones e b by simp
qed

theorem break_even_all_zero_returns_witness:
  "list_all (\<lambda>x. x = 0) [0, 0, 0 :: real]
   \<and> shape (length [0, 0, 0 :: real]) 2 [[1,0],[0,7],[1,1 :: int]]
   \<and> equity_curves (simulated_daily_returns [0, 0, 0] [[1,0],[0,7],[1,1]]) ! 2 ! 1 = 1
   \<and> benchmark_curve [0, 0, 0] ! 2 = 1"
proof -
  have z: "list_all (\<lambda>x. x = 0) [0, 0, 0 :: real]" by simp
  have s: "shape (length [0, 0, 0 :: real]) 2 [[1,0],[0,7],[1,1 :: int]]"
    by (simp add: shape_def)
  show ?thesis using z s break_even_all_zero_returns [OF z s, of 2 1] by simp
qed

text \<open>
  Claim C9, as the code has it. For a return series of float64 values strictly greater
  than -1 and decisions in {0, 1}, every entry of the equity curve matrix and of the
  benchmark curve is nonnegative as computed in float64, and the exact products of the
  same factors are strictly positive.
\<close>

theorem curves_nonnegative_in_float64:
  assumes "list_all is_f64 r" and "list_all above_minus_one r"
    and "shape (length r) N d" and "binary d" and "t < length r" and "n < N"
  shows "0 \<le> f64_value (equity_curves64 (simulated_daily_returns64 r d) ! t ! n)
       \<and> 0 \<le> f64_value (benchmark_curve64 r ! t)
       \<and> 0 < equity_curves (simulated_daily_returns (map f64_value r) d) ! t ! n
       \<and> 0 < benchmark_curve (map f64_value r) ! t"
proof -
  have above: "list_all (\<lambda>x. - 1 < f64_value x) r"
    using assms(2) by (simp add: above_minus_one_def list_all_iff)
  have she: "shape (length r) N (equity_curves64 (simulated_daily_returns64 r d))"
    using assms(3) by (intro shape_equity64 shape_simulated64)
  have e: "0 \<le> f64_value (equity_curves64 (simulated_daily_returns64 r d) ! t ! n)"
    using equity64_nonneg [OF assms(1) above assms(4)] she assms(5,6) by (rule nth_nonneg64)
  have "list_all nonneg64 (benchmark_curve64 r)" using above by (rule benchmark64_nonneg)
  then have b: "0 \<le> f64_value (benchmark_curve64 r ! t)"
    using assms(5) by (simp add: list_all_length benchmark_curve64_def nonneg64_value)
  have above': "list_all (\<lambda>x. - 1 < x) (map f64_value r)"
    using above by (simp add: list_all_iff)
  have sh': "shape (length (map f64_value r)) N d" using assms(3) by simp
  have t': "t < length (map f64_value r)" using assms(5) by simp
  show ?thesis
    using e b exact_curves_positive [OF above' sh' assms(4) t' assms(6)] by simp
qed

theorem curves_nonnegative_in_float64_witness:
  "list_all is_f64 [F64 0 0, F64 1 (- 3), F64 (- 1) (- 1)]
   \<and> list_all above_minus_one [F64 0 0, F64 1 (- 3), F64 (- 1) (- 1)]
   \<and> map f64_value [F64 0 0, F64 1 (- 3), F64 (- 1) (- 1)] = [0, 1 / 8, - 1 / 2]
   \<and> shape (length [F64 0 0, F64 1 (- 3), F64 (- 1) (- 1)]) 2 [[1, 0], [1, 1], [0, 1 :: int]]
   \<and> binary [[1, 0], [1, 1], [0, 1]]
   \<and> f64_value (equity_curves64 (simulated_daily_returns64
         [F64 0 0, F64 1 (- 3), F64 (- 1) (- 1)] [[1, 0], [1, 1], [0, 1]]) ! 2 ! 1) = 9 / 16
   \<and> 0 \<le> f64_value (equity_curves64 (simulated_daily_returns64
         [F64 0 0, F64 1 (- 3), F64 (- 1) (- 1)] [[1, 0], [1, 1], [0, 1]]) ! 2 ! 1)
   \<and> 0 \<le> f64_value (benchmark_curve64 [F64 0 0, F64 1 (- 3), F64 (- 1) (- 1)] ! 2)"
proof -
  have f: "list_all is_f64 [F64 0 0, F64 1 (- 3), F64 (- 1) (- 1)]"
    by (simp add: is_f64_def)
  have a: "list_all above_minus_one [F64 0 0, F64 1 (- 3), F64 (- 1) (- 1)]"
    by (simp add: above_minus_one_def f64_value_def)
  have v: "map f64_value [F64 0 0, F64 1 (- 3), F64 (- 1) (- 1)] = [0, 1 / 8, - 1 / 2]"
    by (simp add: f64_value_def)
  have s: "shape (length [F64 0 0, F64 1 (- 3), F64 (- 1) (- 1)]) 2 [[1, 0], [1, 1], [0, 1 :: int]]"
    by (simp add: shape_def)
  have b: "binary [[1, 0], [1, 1], [0, 1]]"
    by (simp add: binary_def)
  have q: "f64_value (equity_curves64 (simulated_daily_returns64
         [F64 0 0, F64 1 (- 3), F64 (- 1) (- 1)] [[1, 0], [1, 1], [0, 1]]) ! 2 ! 1) = 9 / 16"
    by code_simp
  show ?thesis
    using f a v s b q curves_nonnegative_in_float64 [OF f a s b, of 2 1] by simp
qed

text \<open>
  Claim C9 as stated (every entry is strictly positive) fails in float64: with a return of
  -0.75 on each of 538 days every factor is 0.25, the running product after 537 days is
  the smallest subnormal 2^-1074, and the next product 2^-1076 rounds to 0.
\<close>

theorem float64_underflow_counterexample:
  "list_all is_f64 (replicate 538 (F64 (- 3) (- 2)))
   \<and> list_all above_minus_one (replicate 538 (F64 (- 3) (- 2)))
   \<and> f64_value (F64 (- 3) (- 2)) = - 3 / 4
   \<and> shape (length (replicate 538 (F64 (- 3) (- 2)))) 1 (replicate 538 [1 :: int])
   \<and> binary (replicate 538 [1])
   \<and> f64_value (benchmark_curve64 (replicate 538 (F64 (- 3) (- 2))) ! 537) = 0
   \<and> f64_value (equity_curves64 (simulated_daily_returns64 (replicate 538 (F64 (- 3) (- 2)))
        (replicate 538 [1])) ! 537 ! 0) = 0"
  by code_simp

text \<open>
  Claim C10. When every return is nonnegative and the decisions are in {0, 1}, entry (t, n)
  of the equity curve matrix is at most the benchmark curve at t.
\<close>

theorem equity_at_most_benchmark:
  assumes "list_all (\<lambda>x. 0 \<le> x) r" and "shape (length r) N d" and "binary d"
    and "t < length r" and "n < N"
  shows "equity_curves (simulated_daily_returns r d) ! t ! n \<le> benchmark_curve r ! t"
proof -
  let ?col = "map (\<lambda>x. 1 + x) (map2 (\<lambda>x c. x * real_of_int c) r (column n d))"
  have lend: "length d = length r" and rows: "\<forall>i<length r. length (d ! i) = N"
    using assms(2) by (simp_all add: shape_def list_all_length)
  have bin: "\<forall>i<length r. d ! i ! n = 0 \<or> d ! i ! n = 1"
    using assms(3,5) lend rows by (simp add: binary_def list_all_length)
  have "list_all2 (\<lambda>x y. 0 \<le> x \<and> x \<le> y) ?col (map (\<lambda>x. 1 + x) r)"
    using assms(1) bin lend by (auto simp: list_all2_conv_all_nth list_all_length column_def)
  then have "list_all2 (\<le>) (cumprod ?col) (benchmark_curve r)"
    unfolding benchmark_curve_def by (rule cumprod_mono)
  then have "cumprod ?col ! t \<le> benchmark_curve r ! t"
    using assms(4) lend by (simp add: list_all2_conv_all_nth column_def)
  then show ?thesis using entry_equity [OF assms(2,5,4)] by simp
qed

theorem equity_at_most_benchmark_witness:
  "list_all (\<lambda>x. 0 \<le> x) [0, 1/10, 1/5 :: real]
   \<and> shape (length [0, 1/10, 1/5 :: real]) 2 [[1,0],[1,1],[0,1 :: int]]
   \<and> binary [[1,0],[1,1],[0,1]]
   \<and> equity_curves (simulated_daily_returns [0, 1/10, 1/5] [[1,0],[1,1],[0,1]]) ! 2 ! 0
       \<le> benchmark_curve [0, 1/10, 1/5] ! 2"
proof -
  have p: "list_all (\<lambda>x. 0 \<le> x) [0, 1/10, 1/5 :: real]" by simp
  have s: "shape (length [0, 1/10, 1/5 :: real]) 2 [[1,0],[1,1],[0,1 :: int]]"
    by (simp add: shape_def)
  have b: "binary [[1,0],[1,1],[0,1]]"
    by (simp add: binary_def)
  show ?thesis using p s b equity_at_most_benchmark [OF p s b, of 2 0] by simp
qed

section \<open>The return series builder\<close>

text \<open>
  Claim C3, as the code has it. For a price series of length at least 2 the return series
  has the same length and element 0 is 0. For t \<ge> 1, the entry is 0 when the price of
  day t is missing; otherwise it is price[t] / b - 1, where b is price[t-1] under the
  library default \<open>fill_method=None\<close> and the last valid price before day t under the
  forward-fill default, and it is 0 when there is no such b. A zero b gives an infinity,
  and 0/0 gives 0. So the entry after a missing price is 0 only without forward fill.
\<close>

theorem market_returns_contract:
  assumes "2 \<le> length prices"
  shows "length (market_returns fm prices) = length prices
       \<and> market_returns fm prices ! 0 = Fin 0
       \<and> (\<forall>t. 1 \<le> t \<and> t < length prices \<longrightarrow>
            market_returns fm prices ! t =
              (case prices ! t of
                 None \<Rightarrow> Fin 0
               | Some a \<Rightarrow>
                   (case reference_price fm prices t of
                      None \<Rightarrow> Fin 0
                    | Some b \<Rightarrow> filled_change a b)))"
proof -
  have ne: "prices \<noteq> []" using assms by auto
  show ?thesis using ne by (simp add: market_returns_first market_returns_entry)
qed

theorem market_returns_contract_witness:
  "2 \<le> length [Some 10, Some 11, None, Some 22 :: real option]
   \<and> market_returns No_Fill [Some 10, Some 11, None, Some 22] = [Fin 0, Fin (1 / 10), Fin 0, Fin 0]
   \<and> market_returns Pad [Some 10, Some 11, None, Some 22] = [Fin 0, Fin (1 / 10), Fin 0, Fin 1]
   \<and> market_returns No_Fill [Some 10, Some 0, Some 5, Some 0, Some 0]
       = [Fin 0, Fin (- 1), PInf, Fin (- 1), Fin 0]"
proof -
  have h: "2 \<le> length [Some 10, Some 11, None, Some 22 :: real option]" by simp
  have "market_returns Pad [Some 10, Some 11, None, Some 22] ! 3 = Fin 1"
    using market_returns_contract [OF h, of Pad, THEN conjunct2, THEN conjunct2, THEN spec, of 3]
    by (simp add: reference_price_def filled_change_def)
  moreover have "market_returns No_Fill [Some 10, Some 11, None, Some 22] ! 3 = Fin 0"
    using market_returns_contract [OF h, of No_Fill, THEN conjunct2, THEN conjunct2, THEN spec, of 3]
    by (simp add: reference_price_def)
  ultimately show ?thesis
    using h by (simp add: market_returns_def fillna_def pct_change_def fill_prices_def ffill_def
        shift1_def pct_cell_def)
qed

text \<open>
  Claim C3 as stated (an entry whose change is undefined because of a missing price is 0)
  fails under the forward-fill default: the price of day 2 is missing, and the entry of
  day 3 is 22 / 11 - 1 = 1.
\<close>

theorem missing_price_forward_fill_counterexample:
  "[Some 10, Some 11, None, Some 22] ! 2 = (None :: real option)
   \<and> market_returns Pad [Some 10, Some 11, None, Some 22] ! 3 = Fin 1
   \<and> market_returns Pad [Some 10, Some 11, None, Some 22] ! 3 \<noteq> Fin 0"
  by (simp add: market_returns_def fillna_def pct_change_def fill_prices_def ffill_def
      shift1_def pct_cell_def)

section \<open>Runs on degenerate input\<close>

text \<open>
  Claim C4, as the code has it. Nothing checks for an empty quote result. When the frame
  has zero rows and at least one column, the engine builds zero-row matrices and the run
  fails only in the analysis stage, with the IndexError of reading the last row (for a
  negative simulation count NumPy's ValueError in the simulation stage comes first). Only a
  frame with no columns at all fails in the data stage, through the first-column fallback.
\<close>

theorem zero_rows_run:
  assumes "zero_rows data"
  shows "run fm flips data N =
           (if data = [] then Raised Data_Stage IndexError
            else if N < 0 then Raised Simulation_Stage ValueError
            else Raised Analysis_Stage IndexError)
       \<and> (data \<noteq> [] \<and> 0 \<le> N \<longrightarrow>
            select_prices data = Inr [] \<and> market_returns fm [] = []
            \<and> simulation_engine flips [] N =
                Inr \<lparr>decision = [], simulated = [], equity = [], benchmark = []\<rparr>)"
proof (cases "data = []")
  case True
  then show ?thesis by (simp add: run_def select_prices_def)
next
  case False
  have sel: "select_prices data = Inr []" using assms False by (rule select_prices_zero_rows)
  have mr: "market_returns fm [] = []"
    by (cases fm)
      (simp_all add: market_returns_def fillna_def pct_change_def fill_prices_def ffill_def
        shift1_def)
  have "run fm flips data N = run_returns flips [] N" by (simp add: run_def sel mr)
  then show ?thesis
    using False sel mr run_returns_no_days [of N flips] run_returns_negative [of N flips "[]"]
      engine_no_days [of N flips]
    by simp
qed

theorem zero_rows_run_witness:
  "zero_rows [(''Open'', []), (''Close'', [])]
   \<and> run Pad all_tails [(''Open'', []), (''Close'', [])] 10000 = Raised Analysis_Stage IndexError"
proof -
  have z: "zero_rows [(''Open'', []), (''Close'', [])]" by (simp add: zero_rows_def)
  show ?thesis using z zero_rows_run [OF z, of Pad all_tails 10000] by simp
qed

text \<open>
  Claim C4 as stated (a run on zero rows fails before the simulation stage instead of
  building degenerate matrices) fails on a frame with an empty Close column.
\<close>

theorem zero_rows_fail_fast_counterexample:
  "zero_rows [(''Close'', [])]
   \<and> simulation_engine all_heads [] 10000 =
       Inr \<lparr>decision = [], simulated = [], equity = [], benchmark = []\<rparr>
   \<and> run No_Fill all_heads [(''Close'', [])] 10000 = Raised Analysis_Stage IndexError
   \<and> run No_Fill all_heads [(''Close'', [])] 10000 \<noteq> Raised Data_Stage IndexError
   \<and> run No_Fill all_heads [(''Close'', [])] 10000 \<noteq> Raised Data_Stage ValueError
   \<and> run Pad all_heads [(''Close'', [])] 10000 = Raised Analysis_Stage IndexError"
  by (simp add: zero_rows_def run_def select_prices_def market_returns_def fillna_def
      pct_change_def fill_prices_def ffill_def shift1_def run_returns_def simulation_engine_def decision_matrix_def
      simulated_daily_returns_def equity_curves_def cumprod_axis0_def benchmark_curve_def
      cumprod_def analysis_def)




section \<open>Counting the paths that beat the benchmark\<close>

text \<open>
  Claim C6. The analysis counts exactly the final values strictly greater than the
  benchmark's final value and reports that count divided by N, times 100. For N = 1 and a
  decision column of all ones (on a nonempty return series) the count and the reported
  probability are 0.
\<close>

theorem beat_benchmark_strict:
  "(analysis eq bm N = Inr rep \<longrightarrow>
      beat_benchmark rep = card {n. n < length (last eq) \<and> last bm < last eq ! n}
      \<and> prob_success rep = real (beat_benchmark rep) / real_of_int N * 100)
   \<and> (r \<noteq> [] \<and> (\<forall>t<length r. flips t 0) \<longrightarrow>
        (\<exists>rep'. run_returns flips r 1 = Completed rep'
           \<and> beat_benchmark rep' = 0 \<and> prob_success rep' = 0))"
proof (intro conjI impI)
  assume a: "analysis eq bm N = Inr rep"
  then have "eq \<noteq> []" "bm \<noteq> []" "last eq \<noteq> []"
    by (auto simp: analysis_def Let_def split: if_splits)
  then have "rep = \<lparr>benchmark_final = last bm,
          mean_final = sum_list (last eq) / real (length (last eq)),
          best_final = fold max (tl (last eq)) (hd (last eq)),
          worst_final = fold min (tl (last eq)) (hd (last eq)),
          beat_benchmark = count_beating (last eq) (last bm),
          prob_success = real (count_beating (last eq) (last bm)) / real_of_int N * 100\<rparr>"
    using a analysis_completes [of eq bm N] by simp
  then show "beat_benchmark rep = card {n. n < length (last eq) \<and> last bm < last eq ! n}"
    and "prob_success rep = real (beat_benchmark rep) / real_of_int N * 100"
    by (simp_all add: count_beating_card)
next
  assume b: "r \<noteq> [] \<and> (\<forall>t<length r. flips t 0)"
  let ?T = "length r"
  have T: "0 < ?T" using b by simp
  obtain d where d: "decision_matrix flips ?T 1 = Inr d"
    and sh: "shape ?T (nat 1) d"
    and eng: "simulation_engine flips r 1 =
               Inr \<lparr>decision = d, simulated = simulated_daily_returns r d,
                    equity = equity_curves (simulated_daily_returns r d),
                    benchmark = benchmark_curve r\<rparr>"
    using engine_fields [of 1 flips r] by auto
  let ?eq = "equity_curves (simulated_daily_returns r d)"
  have sh1: "shape ?T 1 d" using sh by simp
  have "d = map (\<lambda>t. [if flips t 0 then 1 else 0]) [0..<?T]"
    using d by (simp add: decision_matrix_def)
  then have ones: "list_all (\<lambda>c. c = 1) (column 0 d)"
    using b by (simp add: column_def list_all_length)
  have she: "shape ?T 1 ?eq" using sh1 by (intro shape_equity shape_simulated)
  have l1: "length (last ?eq) = 1" and l2: "last ?eq = ?eq ! (?T - 1)"
    using shape_last [OF she T] by blast+
  have bne: "benchmark_curve r \<noteq> []"
    using T length_benchmark [of r] by (cases "benchmark_curve r") simp_all
  have "last ?eq ! 0 = benchmark_curve r ! (?T - 1)"
    using l2 all_ones_column_entry [OF sh1 _ ones, of "?T - 1"] T by simp
  also have "\<dots> = last (benchmark_curve r)"
    using bne last_conv_nth [of "benchmark_curve r"] by simp
  finally have fv: "last ?eq = [last (benchmark_curve r)]"
    using l1 by (cases "last ?eq") simp_all
  have ene: "?eq \<noteq> []"
    using she T by (auto simp: shape_def)
  show "\<exists>rep'. run_returns flips r 1 = Completed rep'
           \<and> beat_benchmark rep' = 0 \<and> prob_success rep' = 0"
    using eng analysis_completes [OF ene bne, of 1] fv
    by (simp add: run_returns_def count_beating_def)
qed

theorem beat_benchmark_strict_witness:
  "analysis [[1, 1], [231 / 200, 9 / 10]] [1, 2079 / 2000] 2 =
     Inr \<lparr>benchmark_final = 2079 / 2000, mean_final = 411 / 400, best_final = 231 / 200,
          worst_final = 9 / 10, beat_benchmark = 1, prob_success = 50\<rparr>
   \<and> card {n. n < length (last [[1, 1], [231 / 200, 9 / 10 :: real]])
             \<and> last [1, 2079 / 2000] < last [[1, 1], [231 / 200, 9 / 10 :: real]] ! n} = 1
   \<and> run_returns all_heads [0, 1 / 10] 1 =
       Completed \<lparr>benchmark_final = 11 / 10, mean_final = 11 / 10, best_final = 11 / 10,
          worst_final = 11 / 10, beat_benchmark = 0, prob_success = 0\<rparr>"
proof -
  have a: "analysis [[1, 1], [231 / 200, 9 / 10]] [1, 2079 / 2000] 2 =
     Inr \<lparr>benchmark_final = 2079 / 2000, mean_final = 411 / 400, best_final = 231 / 200,
          worst_final = 9 / 10, beat_benchmark = 1, prob_success = 50\<rparr>"
    by (simp add: analysis_def count_beating_def)
  have r: "run_returns all_heads [0, 1 / 10] 1 =
       Completed \<lparr>benchmark_final = 11 / 10, mean_final = 11 / 10, best_final = 11 / 10,
          worst_final = 11 / 10, beat_benchmark = 0, prob_success = 0\<rparr>"
    by (simp add: run_returns_def simulation_engine_def decision_matrix_def all_heads_def
        simulated_daily_returns_def equity_curves_def cumprod_axis0_def benchmark_curve_def
        cumprod_def analysis_def count_beating_def upt_rec Let_def)
  show ?thesis
    using a r beat_benchmark_strict [THEN conjunct1, rule_format, OF a]
      beat_benchmark_strict [THEN conjunct2, of "[0, 1 / 10]" all_heads]
    by (simp add: all_heads_def)
qed

end
